theory Spec2Isabelle
  imports Complex_Main
begin

section \<open>Spatial plotting for SUMMA output: \<^verbatim>\<open>summa_plot/spatial.py\<close>\<close>

text \<open>
  The module has four functions: \<^verbatim>\<open>add_map_features\<close>, \<^verbatim>\<open>gen_patches\<close>,
  \<^verbatim>\<open>spatial\<close> and \<^verbatim>\<open>hovmuller\<close>. Each is embedded below under its own
  name. The libraries they call (shapely, geopandas, cartopy, matplotlib, xarray) are
  not part of the module: a library function whose result the module only passes on is a
  parameter of the embedding, and a library object the module only calls methods on is
  the ordered list of the calls made on it.
\<close>

subsection \<open>Geometries and the data they are paired with\<close>

text \<open>
  A linear ring is its coordinate sequence. A shapely polygon has an exterior ring and
  interior rings (its holes); a multi-part polygon is the sequence of its parts, which is
  what iterating over it (line 47) yields.
\<close>

type_synonym ring = "(real \<times> real) list"

record polygon =
  exterior :: ring
  interiors :: "ring list"

datatype geometry = SinglePolygon polygon | MultiPolygon "polygon list"

text \<open>
  The two attributes of the labelled array that the module reads: \<^verbatim>\<open>.dims\<close> and
  \<^verbatim>\<open>.values\<close>. Of the geometry table it reads \<^verbatim>\<open>.geometry\<close>; the
  coordinate reference system is what \<^verbatim>\<open>to_crs\<close> changes.
\<close>

record 'v data_array =
  dims :: "string list"
  values_of :: "'v list"

record geodf =
  geometry :: "geometry list"
  crs :: string

subsection \<open>\<^verbatim>\<open>gen_patches\<close> (lines 40 to 57)\<close>

text \<open>
  \<^verbatim>\<open>matplotlib.patches.Polygon(np.asarray(ring))\<close>: a patch whose vertex array is
  the ring's coordinate sequence.
\<close>

datatype patch = Polygon ring

text \<open>
  \<^verbatim>\<open>PatchCollection(patches, linewidth=0., edgecolor=None, alpha=1.0)\<close> and the array that
  \<^verbatim>\<open>set_array\<close> stores in it (lines 55 and 56). \<open>None\<close> is Python's
  \<^verbatim>\<open>None\<close>.
\<close>

record 'v patch_collection =
  pc_patches :: "patch list"
  pc_linewidth :: real
  pc_edgecolor :: "string option"
  pc_alpha :: real
  pc_array :: "'v list"

text \<open>
  The inner loop, lines 47 to 50: one patch and one value appended for each part. The
  argument \<open>simplify\<close> is shapely's \<^verbatim>\<open>geom.simplify(tolerance)\<close>.
\<close>

fun gen_patches_sub ::
  "(real \<Rightarrow> polygon \<Rightarrow> polygon) \<Rightarrow> real \<Rightarrow> 'v \<Rightarrow> polygon list
    \<Rightarrow> patch list \<times> 'v list \<Rightarrow> patch list \<times> 'v list" where
  "gen_patches_sub simplify simplify_level val [] (patches, vals) = (patches, vals)"
| "gen_patches_sub simplify simplify_level val (sub # shp) (patches, vals) =
     gen_patches_sub simplify simplify_level val shp
       (patches @ [Polygon (exterior (simplify simplify_level sub))], vals @ [val])"

text \<open>
  The outer loop, lines 45 to 54, over the pairs that \<^verbatim>\<open>zip\<close> yields.
\<close>

fun gen_patches_loop ::
  "(real \<Rightarrow> polygon \<Rightarrow> polygon) \<Rightarrow> real \<Rightarrow> ('v \<times> geometry) list
    \<Rightarrow> patch list \<times> 'v list \<Rightarrow> patch list \<times> 'v list" where
  "gen_patches_loop simplify simplify_level [] (patches, vals) = (patches, vals)"
| "gen_patches_loop simplify simplify_level ((val, shp) # rest) (patches, vals) =
     (case shp of
        MultiPolygon subs \<Rightarrow>
          gen_patches_loop simplify simplify_level rest
            (gen_patches_sub simplify simplify_level val subs (patches, vals))
      | SinglePolygon p \<Rightarrow>
          gen_patches_loop simplify simplify_level rest
            (patches @ [Polygon (exterior (simplify simplify_level p))], vals @ [val]))"

definition gen_patches ::
  "(real \<Rightarrow> polygon \<Rightarrow> polygon) \<Rightarrow> 'v data_array \<Rightarrow> geodf \<Rightarrow> real
    \<Rightarrow> 'v patch_collection" where
  "gen_patches simplify data_array geodf simplify_level =
     (let (patches, vals) =
            gen_patches_loop simplify simplify_level
              (zip (values_of data_array) (geometry geodf)) ([], [])
      in \<lparr>pc_patches = patches, pc_linewidth = 0, pc_edgecolor = None, pc_alpha = 1,
          pc_array = vals\<rparr>)"

text \<open>The call \<^verbatim>\<open>gen_patches(data_array, geodf)\<close>: \<^verbatim>\<open>simplify_level=500\<close>.\<close>

definition gen_patches_default ::
  "(real \<Rightarrow> polygon \<Rightarrow> polygon) \<Rightarrow> 'v data_array \<Rightarrow> geodf \<Rightarrow> 'v patch_collection" where
  "gen_patches_default simplify data_array geodf = gen_patches simplify data_array geodf 500"

subsection \<open>Figures and axes\<close>

text \<open>
  \<^verbatim>\<open>NaturalEarthFeature(category=..., name=..., scale=..., facecolor=...)\<close>, and one
  call \<^verbatim>\<open>ax.add_feature(feature, **kwargs)\<close>: the feature with the keyword arguments
  of the call, \<open>None\<close> for a keyword the call does not pass. Every call in the module
  passes \<^verbatim>\<open>zorder\<close>.
\<close>

record natural_earth_feature =
  ne_category :: string
  ne_name :: string
  ne_scale :: string
  ne_facecolor :: string

record layer =
  feature :: natural_earth_feature
  kw_edgecolor :: "string option"
  kw_facecolor :: "string option"
  kw_alpha :: "real option"
  kw_zorder :: int
  kw_linewidth :: "real option"

text \<open>
  A cartopy projection: \<^verbatim>\<open>ccrs.Mercator()\<close> with its default arguments, or any
  other projection object, named.
\<close>

datatype projection = Mercator | Projection string

text \<open>
  An axis is an object of matplotlib. The module creates it, calls methods on it and
  returns it, so the model of an axis is the projection it was created with and the
  calls made on it, in order. \<open>None\<close> in a masked grid is a masked cell.
\<close>

datatype 'v ax_call =
    Add_collection "'v patch_collection"
  | Add_feature layer
  | Autoscale_view
  | Pcolormesh "real list" "real list" "real option list list" string
  | Axis "real list"

record 'v axes =
  ax_projection :: "projection option"
  ax_calls :: "'v ax_call list"

record figure =
  fig_number :: nat
  fig_nrows :: nat
  fig_ncols :: nat

text \<open>
  \<^verbatim>\<open>plt.subplots(nrows, ncols, subplot_kw=dict(projection=proj))\<close>. The state of
  pyplot is the number of figures it has created; the call creates the next figure, with
  a fresh axis, and returns both.
\<close>

definition subplots ::
  "nat \<Rightarrow> nat \<Rightarrow> nat \<Rightarrow> projection option \<Rightarrow> (figure \<times> 'v axes) \<times> nat" where
  "subplots plt nrows ncols proj =
     ((\<lparr>fig_number = Suc plt, fig_nrows = nrows, fig_ncols = ncols\<rparr>,
       \<lparr>ax_projection = proj, ax_calls = []\<rparr>), Suc plt)"

definition ax_call :: "'v axes \<Rightarrow> 'v ax_call \<Rightarrow> 'v axes" where
  "ax_call ax c = ax\<lparr>ax_calls := ax_calls ax @ [c]\<rparr>"

subsection \<open>\<^verbatim>\<open>add_map_features\<close> (lines 12 to 37)\<close>

text \<open>
  The function mutates the axis and has no \<^verbatim>\<open>return\<close> statement: it returns
  \<^verbatim>\<open>None\<close>, the unit value here, next to the axis after the calls.
\<close>

definition add_map_features ::
  "'v axes \<Rightarrow> bool \<Rightarrow> bool \<Rightarrow> bool \<Rightarrow> bool \<Rightarrow> bool \<Rightarrow> unit \<times> 'v axes" where
  "add_map_features ax states_provinces country_borders land ocean lake =
     (let ax =
            (if states_provinces then
               ax_call ax (Add_feature
                 \<lparr>feature = \<lparr>ne_category = ''cultural'',
                              ne_name = ''admin_1_states_provinces_lines'',
                              ne_scale = ''50m'', ne_facecolor = ''none''\<rparr>,
                  kw_edgecolor = Some ''black'', kw_facecolor = None,
                  kw_alpha = Some (8 / 10), kw_zorder = 2, kw_linewidth = None\<rparr>)
             else ax);
          ax =
            (if country_borders then
               ax_call ax (Add_feature
                 \<lparr>feature = \<lparr>ne_category = ''cultural'',
                              ne_name = ''admin_0_boundary_lines_land'',
                              ne_scale = ''50m'', ne_facecolor = ''none''\<rparr>,
                  kw_edgecolor = Some ''black'', kw_facecolor = None,
                  kw_alpha = None, kw_zorder = 2, kw_linewidth = Some 1\<rparr>)
             else ax);
          ax =
            (if land then
               ax_call ax (Add_feature
                 \<lparr>feature = \<lparr>ne_category = ''physical'', ne_name = ''land'',
                              ne_scale = ''50m'', ne_facecolor = ''gray''\<rparr>,
                  kw_edgecolor = None, kw_facecolor = Some ''lightgray'',
                  kw_alpha = None, kw_zorder = 0, kw_linewidth = None\<rparr>)
             else ax);
          ax =
            (if ocean then
               ax_call ax (Add_feature
                 \<lparr>feature = \<lparr>ne_category = ''physical'', ne_name = ''ocean'',
                              ne_scale = ''50m'', ne_facecolor = ''blue''\<rparr>,
                  kw_edgecolor = None, kw_facecolor = Some ''lightblue'',
                  kw_alpha = None, kw_zorder = 1, kw_linewidth = None\<rparr>)
             else ax);
          ax =
            (if lake then
               ax_call ax (Add_feature
                 \<lparr>feature = \<lparr>ne_category = ''physical'',
                              ne_name = ''rivers_lake_centerlines'',
                              ne_scale = ''50m'', ne_facecolor = ''none''\<rparr>,
                  kw_edgecolor = None, kw_facecolor = Some ''lightblue'',
                  kw_alpha = None, kw_zorder = 2, kw_linewidth = None\<rparr>)
             else ax)
      in ((), ax))"

text \<open>
  The call \<^verbatim>\<open>add_map_features(ax)\<close>: every flag takes the default of the
  signature, lines 12 and 13.
\<close>

definition add_map_features_default :: "'v axes \<Rightarrow> unit \<times> 'v axes" where
  "add_map_features_default ax = add_map_features ax True True True True False"

subsection \<open>\<^verbatim>\<open>spatial\<close> (lines 60 to 68)\<close>

text \<open>
  \<open>to_crs\<close> is geopandas' \<^verbatim>\<open>geodf.to_crs(crs=...)\<close>, \<open>proj4_params\<close> the
  attribute of that name of a cartopy projection, \<open>simplify\<close> as above, and \<open>plt\<close>
  the state of pyplot before the call. The result is the returned pair and the state of
  pyplot after the call.
\<close>

definition spatial ::
  "(geodf \<Rightarrow> 'p \<Rightarrow> geodf) \<Rightarrow> (projection \<Rightarrow> 'p) \<Rightarrow> (real \<Rightarrow> polygon \<Rightarrow> polygon) \<Rightarrow> nat
    \<Rightarrow> 'v data_array \<Rightarrow> geodf \<Rightarrow> real \<Rightarrow> projection \<Rightarrow> (figure \<times> 'v axes) \<times> nat" where
  "spatial to_crs proj4_params simplify plt data_array geodf simplify_level proj =
     (let geodf_crs = to_crs geodf (proj4_params proj);
          patches = gen_patches simplify data_array geodf_crs simplify_level;
          ((fig, ax), plt) = subplots plt 1 1 (Some proj);
          ax = ax_call ax (Add_collection patches);
          (_, ax) = add_map_features_default ax;
          ax = ax_call ax Autoscale_view
      in ((fig, ax), plt))"

text \<open>
  The call \<^verbatim>\<open>spatial(data_array, geodf)\<close>: \<^verbatim>\<open>simplify_level=500\<close> and
  \<^verbatim>\<open>proj=ccrs.Mercator()\<close>.
\<close>

definition spatial_default ::
  "(geodf \<Rightarrow> 'p \<Rightarrow> geodf) \<Rightarrow> (projection \<Rightarrow> 'p) \<Rightarrow> (real \<Rightarrow> polygon \<Rightarrow> polygon) \<Rightarrow> nat
    \<Rightarrow> 'v data_array \<Rightarrow> geodf \<Rightarrow> (figure \<times> 'v axes) \<times> nat" where
  "spatial_default to_crs proj4_params simplify plt data_array geodf =
     spatial to_crs proj4_params simplify plt data_array geodf 500 Mercator"

subsection \<open>\<^verbatim>\<open>hovmuller\<close> (lines 71 to 121)\<close>

text \<open>
  The exceptions the function can end with. \<^verbatim>\<open>raise Exception(msg)\<close> is
  \<open>Exception msg\<close>; the others are raised by the interpreter or by a library.
\<close>

datatype pyerr =
    AttributeError string
  | Exception string
  | KeyError string
  | TypeError
  | IndexError
  | ValueError

text \<open>
  The two container objects of the function: \<^verbatim>\<open>time_groups\<close> is a list of strings
  (lines 74 to 76) and \<^verbatim>\<open>aggregation_methods\<close> is a dict from strings to
  reductions (lines 98 to 102). A dict has a method \<^verbatim>\<open>keys\<close>; a list has none, and
  looking the attribute up raises \<^verbatim>\<open>AttributeError\<close>.
\<close>

datatype 'a pyobj = PyList "string list" | PyDict "(string \<times> 'a) list"

fun keys :: "'a pyobj \<Rightarrow> pyerr + string list" where
  "keys (PyList xs) = Inl (AttributeError ''keys'')"
| "keys (PyDict kvs) = Inr (map fst kvs)"

text \<open>\<^verbatim>\<open>d[k]\<close>: defined on a dict with the key, and an error otherwise.\<close>

fun getitem :: "'a pyobj \<Rightarrow> string \<Rightarrow> pyerr + 'a" where
  "getitem (PyList xs) k = Inl TypeError"
| "getitem (PyDict kvs) k =
     (case map_of kvs k of None \<Rightarrow> Inl (KeyError k) | Some v \<Rightarrow> Inr v)"

text \<open>The reductions \<^verbatim>\<open>x.mean()\<close>, \<^verbatim>\<open>x.max()\<close>, ... of xarray, by name.\<close>

datatype reduction = Mean | Max | Min | Median | Std

text \<open>
  A floating-point value of the aggregated grid is a finite number, an infinity or a
  NaN; \<^verbatim>\<open>np.ma.masked_invalid\<close> masks the last three.
\<close>

datatype pyfloat = Finite real | PosInf | NegInf | NaN

fun masked :: "pyfloat \<Rightarrow> real option" where
  "masked (Finite r) = Some r"
| "masked PosInf = None"
| "masked NegInf = None"
| "masked NaN = None"

definition masked_invalid :: "pyfloat list list \<Rightarrow> real option list list" where
  "masked_invalid z = map (map masked) z"

text \<open>
  What lines 110 to 112 read of \<^verbatim>\<open>grouped2\<close>: its dimension names, the coordinate
  array of a name, and its values.
\<close>

record grouped =
  g_dims :: "string list"
  g_coords :: "(string \<times> real list) list"
  g_values :: "pyfloat list list"

text \<open>\<^verbatim>\<open>list(grouped2.dims)[i]\<close> and \<^verbatim>\<open>grouped2[name]\<close>.\<close>

definition dim_at :: "grouped \<Rightarrow> nat \<Rightarrow> pyerr + string" where
  "dim_at g i = (if i < length (g_dims g) then Inr (g_dims g ! i) else Inl IndexError)"

definition coord_of :: "grouped \<Rightarrow> string \<Rightarrow> pyerr + real list" where
  "coord_of g k = (case map_of (g_coords g) k of None \<Rightarrow> Inl (KeyError k) | Some c \<Rightarrow> Inr c)"

text \<open>\<^verbatim>\<open>x.min()\<close> and \<^verbatim>\<open>x.max()\<close>: an error on an empty array.\<close>

definition array_min :: "real list \<Rightarrow> pyerr + real" where
  "array_min xs = (case xs of [] \<Rightarrow> Inl ValueError | x # r \<Rightarrow> Inr (fold min r x))"

definition array_max :: "real list \<Rightarrow> pyerr + real" where
  "array_max xs = (case xs of [] \<Rightarrow> Inl ValueError | x # r \<Rightarrow> Inr (fold max r x))"

text \<open>An exception ends the function; a value goes on to the next statement.\<close>

definition and_then :: "pyerr + 'a \<Rightarrow> ('a \<Rightarrow> pyerr + 'b) \<Rightarrow> pyerr + 'b" where
  "and_then m f = (case m of Inl e \<Rightarrow> Inl e | Inr v \<Rightarrow> f v)"

text \<open>
  Python's \<^verbatim>\<open>not how\<close> for an argument that is \<^verbatim>\<open>None\<close> or a string: true of
  \<^verbatim>\<open>None\<close> and of the empty string.
\<close>

definition falsy :: "string option \<Rightarrow> bool" where
  "falsy how = (how = None \<or> how = Some [])"

text \<open>\<^verbatim>\<open>how not in ks\<close> for the same argument and a sequence of strings.\<close>

definition not_in :: "string option \<Rightarrow> string list \<Rightarrow> bool" where
  "not_in how ks = (case how of None \<Rightarrow> True | Some h \<Rightarrow> h \<notin> set ks)"

text \<open>
  The function. \<open>groupby_apply\<close> is xarray's part of lines 108 and 109,
  \<^verbatim>\<open>data_array.groupby(ydim).apply(lambda x: aggregate(x.groupby(xdim)))\<close>, from the
  array, the two grouping keys and the reduction to the aggregated array or the error
  xarray raises. \<open>how\<close> is \<open>None\<close> for \<^verbatim>\<open>how=None\<close>. The statements are in the
  order of the source, each one reached only if the ones before it raised nothing.
\<close>

definition hovmuller ::
  "('v data_array \<Rightarrow> string \<Rightarrow> string \<Rightarrow> reduction \<Rightarrow> pyerr + grouped) \<Rightarrow> nat
    \<Rightarrow> 'v data_array \<Rightarrow> string \<Rightarrow> string \<Rightarrow> string option \<Rightarrow> string
    \<Rightarrow> pyerr + ((figure \<times> 'v axes) \<times> nat)" where
  "hovmuller groupby_apply plt data_array xdim ydim how cmap =
     (let time_groups = (PyList [''year'', ''month'', ''day'', ''hour'',
                                 ''minute'', ''second'', ''dayofyear'',
                                 ''week'', ''dayofweek'', ''weekday'', ''quarter'']
                          :: unit pyobj);
          x_da_dim = (xdim \<in> set (dims data_array))
      in
      and_then (keys time_groups) (\<lambda>ks.
      let x_tg_dim = (xdim \<in> set ks) in
      and_then
        (if x_tg_dim then
           (if falsy how
            then Inl (Exception ''Must specify aggregation method for x dimension'')
            else Inr (''time.'' @ xdim))
         else if \<not> x_da_dim then Inl (Exception ''x dimension not valid'')
         else Inr xdim) (\<lambda>xdim.
      let y_da_dim = (ydim \<in> set (dims data_array)) in
      and_then (keys time_groups) (\<lambda>ks.
      let y_tg_dim = (ydim \<in> set ks) in
      and_then
        (if y_tg_dim then
           (if falsy how
            then Inl (Exception ''Must specify aggregation method for y dimension'')
            else Inr (''time.'' @ ydim))
         else if \<not> y_da_dim then Inl (Exception ''y dimension not valid'')
         else Inr ydim) (\<lambda>ydim.
      let aggregation_methods =
            PyDict [(''mean'', Mean), (''max'', Max), (''min'', Min),
                    (''median'', Median), (''std'', Std)] in
      and_then (keys aggregation_methods) (\<lambda>ms.
      and_then
        (if not_in how ms then Inl (Exception ''Invalid time aggregation method given'')
         else Inr ()) (\<lambda>_.
      and_then
        (case how of None \<Rightarrow> Inl (KeyError ''None'')
         | Some h \<Rightarrow> getitem aggregation_methods h) (\<lambda>aggregate.
      and_then (groupby_apply data_array ydim xdim aggregate) (\<lambda>grouped2.
      and_then (dim_at grouped2 1) (\<lambda>xname.
      and_then (coord_of grouped2 xname) (\<lambda>x.
      and_then (dim_at grouped2 0) (\<lambda>yname.
      and_then (coord_of grouped2 yname) (\<lambda>y.
      let z = masked_invalid (g_values grouped2);
          ((fig, ax), plt) = subplots plt 1 1 None;
          ax = ax_call ax (Pcolormesh x y z cmap)
      in
      and_then (array_min x) (\<lambda>xmin.
      and_then (array_max x) (\<lambda>xmax.
      and_then (array_min y) (\<lambda>ymin.
      and_then (array_max y) (\<lambda>ymax.
      let ax = ax_call ax (Axis [xmin, xmax, ymin, ymax])
      in Inr ((fig, ax), plt))))))))))))))))))"

text \<open>
  The call \<^verbatim>\<open>hovmuller(data_array, xdim, ydim)\<close>: \<^verbatim>\<open>how='mean'\<close> and
  \<^verbatim>\<open>cmap='viridis'\<close>.
\<close>

definition hovmuller_default ::
  "('v data_array \<Rightarrow> string \<Rightarrow> string \<Rightarrow> reduction \<Rightarrow> pyerr + grouped) \<Rightarrow> nat
    \<Rightarrow> 'v data_array \<Rightarrow> string \<Rightarrow> string \<Rightarrow> pyerr + ((figure \<times> 'v axes) \<times> nat)" where
  "hovmuller_default groupby_apply plt data_array xdim ydim =
     hovmuller groupby_apply plt data_array xdim ydim (Some ''mean'') ''viridis''"

section \<open>Properties\<close>

subsection \<open>The loops of \<^verbatim>\<open>gen_patches\<close>\<close>

text \<open>
  The inner loop appends one patch and one copy of the value for each part; the outer
  loop only ever appends to what it was given, and runs over a concatenation of rows as
  over the first rows and then over the rest.
\<close>

lemma gen_patches_sub_eq:
  "gen_patches_sub s l v subs (ps, vs) =
     (ps @ map (\<lambda>sub. Polygon (exterior (s l sub))) subs, vs @ replicate (length subs) v)"
  by (induction subs arbitrary: ps vs) (simp_all add: replicate_app_Cons_same)

lemma gen_patches_loop_acc:
  "gen_patches_loop s l rows (ps, vs) =
     (ps @ fst (gen_patches_loop s l rows ([], [])), vs @ snd (gen_patches_loop s l rows ([], [])))"
proof (induction rows arbitrary: ps vs)
  case Nil
  show ?case by simp
next
  case (Cons row rows)
  obtain val shp where row: "row = (val, shp)" by (cases row)
  show ?case
  proof (cases shp)
    case (SinglePolygon p)
    show ?thesis
      using Cons.IH [of "ps @ [Polygon (exterior (s l p))]" "vs @ [val]"]
            Cons.IH [of "[Polygon (exterior (s l p))]" "[val]"]
      by (simp add: row SinglePolygon)
  next
    case (MultiPolygon subs)
    show ?thesis
      using Cons.IH [of "ps @ map (\<lambda>sub. Polygon (exterior (s l sub))) subs"
                        "vs @ replicate (length subs) val"]
            Cons.IH [of "map (\<lambda>sub. Polygon (exterior (s l sub))) subs"
                        "replicate (length subs) val"]
      by (simp add: row MultiPolygon gen_patches_sub_eq)
  qed
qed

lemma gen_patches_loop_append:
  "gen_patches_loop s l (xs @ ys) acc = gen_patches_loop s l ys (gen_patches_loop s l xs acc)"
proof (induction xs arbitrary: acc)
  case Nil
  show ?case by (cases acc) simp
next
  case (Cons row xs)
  obtain val shp where row: "row = (val, shp)" by (cases row)
  obtain ps vs where acc: "acc = (ps, vs)" by (cases acc)
  show ?case by (cases shp) (simp_all add: row acc Cons.IH)
qed

lemma gen_patches_loop_single:
  "gen_patches_loop s l (zip vals (map SinglePolygon polys)) (ps, vs) =
     (ps @ map (\<lambda>p. Polygon (exterior (s l p))) (take (length vals) polys),
      vs @ take (length polys) vals)"
proof (induction polys arbitrary: vals ps vs)
  case Nil
  show ?case by simp
next
  case (Cons p polys)
  show ?case
  proof (cases vals)
    case Nil
    then show ?thesis by simp
  next
    case (Cons v vals')
    then show ?thesis using Cons.IH [of vals' "ps @ [Polygon (exterior (s l p))]" "vs @ [v]"]
      by simp
  qed
qed

lemma gen_patches_loop_split:
  "gen_patches_loop s l (xs @ ys) ([], []) =
     (fst (gen_patches_loop s l xs ([], [])) @ fst (gen_patches_loop s l ys ([], [])),
      snd (gen_patches_loop s l xs ([], [])) @ snd (gen_patches_loop s l ys ([], [])))"
proof -
  obtain ps vs where xs: "gen_patches_loop s l xs ([], []) = (ps, vs)"
    by (cases "gen_patches_loop s l xs ([], [])")
  show ?thesis
    using gen_patches_loop_acc [of s l ys ps vs]
    by (simp add: gen_patches_loop_append xs)
qed

lemma gen_patches_fields:
  "pc_patches (gen_patches s da g l)
     = fst (gen_patches_loop s l (zip (values_of da) (geometry g)) ([], []))"
  "pc_array (gen_patches s da g l)
     = snd (gen_patches_loop s l (zip (values_of da) (geometry g)) ([], []))"
  "pc_linewidth (gen_patches s da g l) = 0"
  "pc_edgecolor (gen_patches s da g l) = None"
  "pc_alpha (gen_patches s da g l) = 1"
  by (simp_all add: gen_patches_def split: prod.splits)

lemma zip_at:
  assumes "i < length xs" "i < length ys"
  shows "zip xs ys = zip (take i xs) (take i ys) @ [(xs ! i, ys ! i)]
                       @ zip (drop (Suc i) xs) (drop (Suc i) ys)"
proof -
  have "zip xs ys = take i (zip xs ys) @ (zip xs ys ! i) # drop (Suc i) (zip xs ys)"
    using id_take_nth_drop [of i "zip xs ys"] assms by simp
  then show ?thesis
    using assms by (simp add: take_zip drop_zip)
qed

lemma gen_patches_loop_length:
  "length (fst (gen_patches_loop s l rows ([], [])))
     = length (snd (gen_patches_loop s l rows ([], [])))"
proof (induction rows)
  case Nil
  show ?case by simp
next
  case (Cons row rows)
  obtain val shp where row: "row = (val, shp)" by (cases row)
  have "gen_patches_loop s l (row # rows) ([], [])
          = gen_patches_loop s l ([row] @ rows) ([], [])" by simp
  also have "\<dots> = (fst (gen_patches_loop s l [row] ([], [])) @ fst (gen_patches_loop s l rows ([], [])),
      snd (gen_patches_loop s l [row] ([], [])) @ snd (gen_patches_loop s l rows ([], [])))"
    by (rule gen_patches_loop_split)
  finally show ?case using Cons.IH
    by (cases shp) (simp_all add: row gen_patches_sub_eq)
qed

lemma gen_patches_loop_origin:
  "ptch \<in> set (fst (gen_patches_loop s l rows ([], []))) \<Longrightarrow>
     \<exists>p. (SinglePolygon p \<in> snd ` set rows
           \<or> (\<exists>subs. MultiPolygon subs \<in> snd ` set rows \<and> p \<in> set subs))
         \<and> ptch = Polygon (exterior (s l p))"
proof (induction rows)
  case Nil
  then show ?case by simp
next
  case (Cons row rows)
  obtain val shp where row: "row = (val, shp)" by (cases row)
  have "gen_patches_loop s l (row # rows) ([], [])
          = gen_patches_loop s l ([row] @ rows) ([], [])" by simp
  also have "\<dots> = (fst (gen_patches_loop s l [row] ([], [])) @ fst (gen_patches_loop s l rows ([], [])),
      snd (gen_patches_loop s l [row] ([], [])) @ snd (gen_patches_loop s l rows ([], [])))"
    by (rule gen_patches_loop_split)
  finally have "ptch \<in> set (fst (gen_patches_loop s l [row] ([], [])))
                 \<or> ptch \<in> set (fst (gen_patches_loop s l rows ([], [])))"
    using Cons.prems by simp
  then show ?case
  proof
    assume h: "ptch \<in> set (fst (gen_patches_loop s l [row] ([], [])))"
    show ?thesis
    proof (cases shp)
      case (SinglePolygon p)
      then show ?thesis using h by (auto simp: row)
    next
      case (MultiPolygon subs)
      then show ?thesis using h by (auto simp: row gen_patches_sub_eq)
    qed
  next
    assume "ptch \<in> set (fst (gen_patches_loop s l rows ([], [])))"
    then show ?thesis using Cons.IH by auto
  qed
qed

text \<open>
  The outer loop from empty lists, in closed form: the rows' shapes one after the other,
  and next to them the rows' values, each repeated once for each shape of its row.
\<close>

lemma gen_patches_loop_concat:
  "gen_patches_loop s l rows ([], []) =
     (concat (map (\<lambda>(val, shp). case shp of
                      SinglePolygon p \<Rightarrow> [Polygon (exterior (s l p))]
                    | MultiPolygon subs \<Rightarrow> map (\<lambda>sub. Polygon (exterior (s l sub))) subs)
                  rows),
      concat (map (\<lambda>(val, shp). case shp of
                      SinglePolygon p \<Rightarrow> [val]
                    | MultiPolygon subs \<Rightarrow> replicate (length subs) val)
                  rows))"
proof (induction rows)
  case Nil
  show ?case by simp
next
  case (Cons row rows)
  obtain val shp where row: "row = (val, shp)" by (cases row)
  have "gen_patches_loop s l (row # rows) ([], [])
          = gen_patches_loop s l ([row] @ rows) ([], [])" by simp
  also have "\<dots> = (fst (gen_patches_loop s l [row] ([], [])) @ fst (gen_patches_loop s l rows ([], [])),
      snd (gen_patches_loop s l [row] ([], [])) @ snd (gen_patches_loop s l rows ([], [])))"
    by (rule gen_patches_loop_split)
  finally show ?case
    by (cases shp) (simp_all add: row Cons.IH gen_patches_sub_eq)
qed

subsection \<open>Single polygons\<close>

text \<open>
  C1: when every geometry of the table is a single polygon and the value sequence has as
  many entries as the table has rows, \<^verbatim>\<open>gen_patches\<close> returns as many shapes as
  there are rows, the shape at each position being built from the row at that position,
  and the values in the order given.
\<close>

theorem gen_patches_single_polygons:
  assumes "geometry geodf = map SinglePolygon polys"
    and "length (values_of data_array) = length (geometry geodf)"
  shows "length (pc_patches (gen_patches simplify data_array geodf simplify_level))
           = length (geometry geodf)
       \<and> pc_patches (gen_patches simplify data_array geodf simplify_level)
           = map (\<lambda>p. Polygon (exterior (simplify simplify_level p))) polys
       \<and> pc_array (gen_patches simplify data_array geodf simplify_level)
           = values_of data_array"
  using assms by (simp add: gen_patches_def gen_patches_loop_single)

theorem gen_patches_single_polygons_witness:
  "geometry \<lparr>geometry = [SinglePolygon \<lparr>exterior = [(0, 0), (4, 0), (0, 3), (0, 0)], interiors = []\<rparr>,
                          SinglePolygon \<lparr>exterior = [(5, 5), (6, 5), (5, 6), (5, 5)], interiors = []\<rparr>],
             crs = ''epsg:4326''\<rparr>
     = map SinglePolygon [\<lparr>exterior = [(0, 0), (4, 0), (0, 3), (0, 0)], interiors = []\<rparr>,
                          \<lparr>exterior = [(5, 5), (6, 5), (5, 6), (5, 5)], interiors = []\<rparr>]
   \<and> pc_patches (gen_patches (\<lambda>tolerance p. p)
        \<lparr>dims = [''hru''], values_of = [7 :: int, 9]\<rparr>
        \<lparr>geometry = [SinglePolygon \<lparr>exterior = [(0, 0), (4, 0), (0, 3), (0, 0)], interiors = []\<rparr>,
                     SinglePolygon \<lparr>exterior = [(5, 5), (6, 5), (5, 6), (5, 5)], interiors = []\<rparr>],
         crs = ''epsg:4326''\<rparr> 500)
     = [Polygon [(0, 0), (4, 0), (0, 3), (0, 0)], Polygon [(5, 5), (6, 5), (5, 6), (5, 5)]]
   \<and> pc_array (gen_patches (\<lambda>tolerance p. p)
        \<lparr>dims = [''hru''], values_of = [7 :: int, 9]\<rparr>
        \<lparr>geometry = [SinglePolygon \<lparr>exterior = [(0, 0), (4, 0), (0, 3), (0, 0)], interiors = []\<rparr>,
                     SinglePolygon \<lparr>exterior = [(5, 5), (6, 5), (5, 6), (5, 5)], interiors = []\<rparr>],
         crs = ''epsg:4326''\<rparr> 500)
     = [7, 9]"
proof -
  let ?a = "\<lparr>exterior = [(0, 0), (4, 0), (0, 3), (0, 0)], interiors = []\<rparr> :: polygon"
  let ?b = "\<lparr>exterior = [(5, 5), (6, 5), (5, 6), (5, 5)], interiors = []\<rparr> :: polygon"
  let ?g = "\<lparr>geometry = [SinglePolygon ?a, SinglePolygon ?b], crs = ''epsg:4326''\<rparr>"
  let ?d = "\<lparr>dims = [''hru''], values_of = [7 :: int, 9]\<rparr>"
  have h1: "geometry ?g = map SinglePolygon [?a, ?b]" by simp
  have h2: "length (values_of ?d) = length (geometry ?g)" by simp
  show ?thesis
    using gen_patches_single_polygons [OF h1 h2, of "\<lambda>tolerance p. p" 500] by simp
qed

subsection \<open>Multi-part polygons\<close>

text \<open>
  C2: a row at position \<open>i\<close> whose geometry is a multi-part polygon with parts
  \<open>subs\<close> gives exactly one shape for each part, each with the value of the row, and
  these shapes stand together between the shapes of the rows before \<open>i\<close> and the
  shapes of the rows after \<open>i\<close>; the values likewise.
\<close>

theorem gen_patches_multipolygon:
  assumes "i < length (values_of data_array)"
    and "i < length (geometry geodf)"
    and "geometry geodf ! i = MultiPolygon subs"
  shows "pc_patches (gen_patches simplify data_array geodf simplify_level)
           = pc_patches (gen_patches simplify
                 (data_array\<lparr>values_of := take i (values_of data_array)\<rparr>)
                 (geodf\<lparr>geometry := take i (geometry geodf)\<rparr>) simplify_level)
             @ map (\<lambda>sub. Polygon (exterior (simplify simplify_level sub))) subs
             @ pc_patches (gen_patches simplify
                 (data_array\<lparr>values_of := drop (Suc i) (values_of data_array)\<rparr>)
                 (geodf\<lparr>geometry := drop (Suc i) (geometry geodf)\<rparr>) simplify_level)
       \<and> pc_array (gen_patches simplify data_array geodf simplify_level)
           = pc_array (gen_patches simplify
                 (data_array\<lparr>values_of := take i (values_of data_array)\<rparr>)
                 (geodf\<lparr>geometry := take i (geometry geodf)\<rparr>) simplify_level)
             @ replicate (length subs) (values_of data_array ! i)
             @ pc_array (gen_patches simplify
                 (data_array\<lparr>values_of := drop (Suc i) (values_of data_array)\<rparr>)
                 (geodf\<lparr>geometry := drop (Suc i) (geometry geodf)\<rparr>) simplify_level)"
proof -
  let ?v = "values_of data_array ! i"
  let ?pre = "zip (take i (values_of data_array)) (take i (geometry geodf))"
  let ?post = "zip (drop (Suc i) (values_of data_array)) (drop (Suc i) (geometry geodf))"
  have rows: "zip (values_of data_array) (geometry geodf)
                = ?pre @ [(?v, MultiPolygon subs)] @ ?post"
    using zip_at [OF assms(1) assms(2)] assms(3) by simp
  have one: "gen_patches_loop simplify simplify_level [(?v, MultiPolygon subs)] ([], [])
               = (map (\<lambda>sub. Polygon (exterior (simplify simplify_level sub))) subs,
                  replicate (length subs) ?v)"
    by (simp add: gen_patches_sub_eq)
  have "gen_patches_loop simplify simplify_level
          (zip (values_of data_array) (geometry geodf)) ([], [])
        = (fst (gen_patches_loop simplify simplify_level ?pre ([], []))
             @ map (\<lambda>sub. Polygon (exterior (simplify simplify_level sub))) subs
             @ fst (gen_patches_loop simplify simplify_level ?post ([], [])),
           snd (gen_patches_loop simplify simplify_level ?pre ([], []))
             @ replicate (length subs) ?v
             @ snd (gen_patches_loop simplify simplify_level ?post ([], [])))"
    by (simp only: rows gen_patches_loop_split one fst_conv snd_conv)
  then show ?thesis
    by (simp add: gen_patches_fields)
qed

theorem gen_patches_multipolygon_witness:
  "pc_patches (gen_patches (\<lambda>tolerance p. p)
        \<lparr>dims = [''hru''], values_of = [7 :: int, 9, 11]\<rparr>
        \<lparr>geometry = [SinglePolygon \<lparr>exterior = [(0, 0), (4, 0), (0, 3), (0, 0)], interiors = []\<rparr>,
                     MultiPolygon [\<lparr>exterior = [(5, 5), (6, 5), (5, 6), (5, 5)], interiors = []\<rparr>,
                                   \<lparr>exterior = [(8, 8), (9, 8), (8, 9), (8, 8)], interiors = []\<rparr>],
                     SinglePolygon \<lparr>exterior = [(1, 1), (2, 1), (1, 2), (1, 1)], interiors = []\<rparr>],
         crs = ''epsg:4326''\<rparr> 500)
     = [Polygon [(0, 0), (4, 0), (0, 3), (0, 0)],
        Polygon [(5, 5), (6, 5), (5, 6), (5, 5)], Polygon [(8, 8), (9, 8), (8, 9), (8, 8)],
        Polygon [(1, 1), (2, 1), (1, 2), (1, 1)]]
   \<and> pc_array (gen_patches (\<lambda>tolerance p. p)
        \<lparr>dims = [''hru''], values_of = [7 :: int, 9, 11]\<rparr>
        \<lparr>geometry = [SinglePolygon \<lparr>exterior = [(0, 0), (4, 0), (0, 3), (0, 0)], interiors = []\<rparr>,
                     MultiPolygon [\<lparr>exterior = [(5, 5), (6, 5), (5, 6), (5, 5)], interiors = []\<rparr>,
                                   \<lparr>exterior = [(8, 8), (9, 8), (8, 9), (8, 8)], interiors = []\<rparr>],
                     SinglePolygon \<lparr>exterior = [(1, 1), (2, 1), (1, 2), (1, 1)], interiors = []\<rparr>],
         crs = ''epsg:4326''\<rparr> 500)
     = [7, 9, 9, 11]"
proof -
  let ?a = "\<lparr>exterior = [(0, 0), (4, 0), (0, 3), (0, 0)], interiors = []\<rparr> :: polygon"
  let ?b = "\<lparr>exterior = [(5, 5), (6, 5), (5, 6), (5, 5)], interiors = []\<rparr> :: polygon"
  let ?c = "\<lparr>exterior = [(8, 8), (9, 8), (8, 9), (8, 8)], interiors = []\<rparr> :: polygon"
  let ?e = "\<lparr>exterior = [(1, 1), (2, 1), (1, 2), (1, 1)], interiors = []\<rparr> :: polygon"
  let ?g = "\<lparr>geometry = [SinglePolygon ?a, MultiPolygon [?b, ?c], SinglePolygon ?e],
             crs = ''epsg:4326''\<rparr>"
  let ?d = "\<lparr>dims = [''hru''], values_of = [7 :: int, 9, 11]\<rparr>"
  have h1: "1 < length (values_of ?d)" by simp
  have h2: "1 < length (geometry ?g)" by simp
  have h3: "geometry ?g ! 1 = MultiPolygon [?b, ?c]" by simp
  have pre: "gen_patches (\<lambda>tolerance p. p) (?d\<lparr>values_of := take 1 (values_of ?d)\<rparr>)
               (?g\<lparr>geometry := take 1 (geometry ?g)\<rparr>) 500
             = \<lparr>pc_patches = [Polygon (exterior ?a)], pc_linewidth = 0, pc_edgecolor = None,
                pc_alpha = 1, pc_array = [7]\<rparr>"
    by (simp add: gen_patches_def)
  have post: "gen_patches (\<lambda>tolerance p. p) (?d\<lparr>values_of := drop (Suc 1) (values_of ?d)\<rparr>)
               (?g\<lparr>geometry := drop (Suc 1) (geometry ?g)\<rparr>) 500
             = \<lparr>pc_patches = [Polygon (exterior ?e)], pc_linewidth = 0, pc_edgecolor = None,
                pc_alpha = 1, pc_array = [11]\<rparr>"
    by (simp add: gen_patches_def)
  show ?thesis
    using gen_patches_multipolygon [OF h1 h2 h3, of "\<lambda>tolerance p. p" 500]
    unfolding pre post by (simp add: numeral_2_eq_2)
qed

subsection \<open>The collection\<close>

text \<open>
  C7: the shapes of the collection are, row by row in the order of the rows, the shape
  of the row's polygon or the shapes of the parts of the row's multi-part polygon, each
  shape being the exterior ring of the simplification of that polygon at the given
  tolerance (the interior rings are not used, and the tolerance is the same for every
  call); the value array holds, in the same order, the row's value once for each shape
  of the row, so it is parallel to the shapes and as long as the shape list. The
  collection has line width 0, no edge colour and opacity 1. In particular every shape
  comes from a polygon of the table or from a part of one of its multi-part polygons.
\<close>

theorem gen_patches_collection:
  "pc_linewidth (gen_patches simplify data_array geodf simplify_level) = 0
   \<and> pc_edgecolor (gen_patches simplify data_array geodf simplify_level) = None
   \<and> pc_alpha (gen_patches simplify data_array geodf simplify_level) = 1
   \<and> pc_patches (gen_patches simplify data_array geodf simplify_level)
       = concat (map (\<lambda>(val, shp). case shp of
                        SinglePolygon p \<Rightarrow> [Polygon (exterior (simplify simplify_level p))]
                      | MultiPolygon subs \<Rightarrow>
                          map (\<lambda>sub. Polygon (exterior (simplify simplify_level sub))) subs)
                    (zip (values_of data_array) (geometry geodf)))
   \<and> pc_array (gen_patches simplify data_array geodf simplify_level)
       = concat (map (\<lambda>(val, shp). case shp of
                        SinglePolygon p \<Rightarrow> [val]
                      | MultiPolygon subs \<Rightarrow> replicate (length subs) val)
                    (zip (values_of data_array) (geometry geodf)))
   \<and> length (pc_array (gen_patches simplify data_array geodf simplify_level))
       = length (pc_patches (gen_patches simplify data_array geodf simplify_level))
   \<and> (\<forall>ptch \<in> set (pc_patches (gen_patches simplify data_array geodf simplify_level)).
        \<exists>p. (SinglePolygon p \<in> set (geometry geodf)
              \<or> (\<exists>subs. MultiPolygon subs \<in> set (geometry geodf) \<and> p \<in> set subs))
            \<and> ptch = Polygon (exterior (simplify simplify_level p)))"
proof -
  let ?rows = "zip (values_of data_array) (geometry geodf)"
  have sub: "snd ` set ?rows \<subseteq> set (geometry geodf)"
    by (auto dest: set_zip_rightD)
  have origin: "\<exists>p. (SinglePolygon p \<in> set (geometry geodf)
              \<or> (\<exists>subs. MultiPolygon subs \<in> set (geometry geodf) \<and> p \<in> set subs))
            \<and> ptch = Polygon (exterior (simplify simplify_level p))"
    if "ptch \<in> set (pc_patches (gen_patches simplify data_array geodf simplify_level))" for ptch
    using gen_patches_loop_origin [of ptch simplify simplify_level ?rows] that sub
    by (simp add: gen_patches_fields) blast
  have shapes: "pc_patches (gen_patches simplify data_array geodf simplify_level)
       = concat (map (\<lambda>(val, shp). case shp of
                        SinglePolygon p \<Rightarrow> [Polygon (exterior (simplify simplify_level p))]
                      | MultiPolygon subs \<Rightarrow>
                          map (\<lambda>sub. Polygon (exterior (simplify simplify_level sub))) subs)
                    ?rows)"
    by (simp add: gen_patches_fields gen_patches_loop_concat)
  have vals: "pc_array (gen_patches simplify data_array geodf simplify_level)
       = concat (map (\<lambda>(val, shp). case shp of
                        SinglePolygon p \<Rightarrow> [val]
                      | MultiPolygon subs \<Rightarrow> replicate (length subs) val)
                    ?rows)"
    by (simp add: gen_patches_fields gen_patches_loop_concat)
  have len: "length (pc_array (gen_patches simplify data_array geodf simplify_level))
       = length (pc_patches (gen_patches simplify data_array geodf simplify_level))"
    by (simp add: gen_patches_fields gen_patches_loop_length)
  from shapes vals len origin show ?thesis
    by (simp only: gen_patches_fields(3,4,5)) blast
qed

theorem gen_patches_collection_witness:
  "pc_patches (gen_patches (\<lambda>tolerance p. p)
        \<lparr>dims = [''hru''], values_of = [7 :: int, 9]\<rparr>
        \<lparr>geometry = [SinglePolygon \<lparr>exterior = [(0, 0), (4, 0), (0, 3), (0, 0)], interiors = []\<rparr>,
                     MultiPolygon [\<lparr>exterior = [(5, 5), (6, 5), (5, 6), (5, 5)],
                                    interiors = [[(5.1, 5.1), (5.2, 5.1), (5.1, 5.2), (5.1, 5.1)]]\<rparr>]],
         crs = ''epsg:4326''\<rparr> 500)
     = [Polygon [(0, 0), (4, 0), (0, 3), (0, 0)], Polygon [(5, 5), (6, 5), (5, 6), (5, 5)]]
   \<and> pc_array (gen_patches (\<lambda>tolerance p. p)
        \<lparr>dims = [''hru''], values_of = [7 :: int, 9]\<rparr>
        \<lparr>geometry = [SinglePolygon \<lparr>exterior = [(0, 0), (4, 0), (0, 3), (0, 0)], interiors = []\<rparr>,
                     MultiPolygon [\<lparr>exterior = [(5, 5), (6, 5), (5, 6), (5, 5)],
                                    interiors = [[(5.1, 5.1), (5.2, 5.1), (5.1, 5.2), (5.1, 5.1)]]\<rparr>]],
         crs = ''epsg:4326''\<rparr> 500)
     = [7, 9]
   \<and> (\<exists>p. (SinglePolygon p \<in> {SinglePolygon \<lparr>exterior = [(0, 0), (4, 0), (0, 3), (0, 0)], interiors = []\<rparr>,
                     MultiPolygon [\<lparr>exterior = [(5, 5), (6, 5), (5, 6), (5, 5)],
                                    interiors = [[(5.1, 5.1), (5.2, 5.1), (5.1, 5.2), (5.1, 5.1)]]\<rparr>]}
          \<or> (\<exists>subs. MultiPolygon subs \<in> {SinglePolygon \<lparr>exterior = [(0, 0), (4, 0), (0, 3), (0, 0)], interiors = []\<rparr>,
                     MultiPolygon [\<lparr>exterior = [(5, 5), (6, 5), (5, 6), (5, 5)],
                                    interiors = [[(5.1, 5.1), (5.2, 5.1), (5.1, 5.2), (5.1, 5.1)]]\<rparr>]}
                \<and> p \<in> set subs))
          \<and> Polygon [(5, 5), (6, 5), (5, 6), (5, 5)] = Polygon (exterior p))"
proof -
  let ?a = "\<lparr>exterior = [(0, 0), (4, 0), (0, 3), (0, 0)], interiors = []\<rparr> :: polygon"
  let ?b = "\<lparr>exterior = [(5, 5), (6, 5), (5, 6), (5, 5)],
             interiors = [[(5.1, 5.1), (5.2, 5.1), (5.1, 5.2), (5.1, 5.1)]]\<rparr> :: polygon"
  let ?g = "\<lparr>geometry = [SinglePolygon ?a, MultiPolygon [?b]], crs = ''epsg:4326''\<rparr>"
  let ?d = "\<lparr>dims = [''hru''], values_of = [7 :: int, 9]\<rparr>"
  note inst = gen_patches_collection [of "\<lambda>tolerance p. p" ?d ?g 500]
  from inst have shapes: "pc_patches (gen_patches (\<lambda>tolerance p. p) ?d ?g 500)
      = [Polygon [(0, 0), (4, 0), (0, 3), (0, 0)], Polygon [(5, 5), (6, 5), (5, 6), (5, 5)]]"
    by simp
  from inst have vals: "pc_array (gen_patches (\<lambda>tolerance p. p) ?d ?g 500) = [7, 9]"
    by simp
  have mem: "Polygon [(5, 5), (6, 5), (5, 6), (5, 5)]
               \<in> set (pc_patches (gen_patches (\<lambda>tolerance p. p) ?d ?g 500))"
    unfolding shapes by simp
  from inst
  have "\<forall>ptch \<in> set (pc_patches (gen_patches (\<lambda>tolerance p. p) ?d ?g 500)).
          \<exists>p. (SinglePolygon p \<in> set (geometry ?g)
                \<or> (\<exists>subs. MultiPolygon subs \<in> set (geometry ?g) \<and> p \<in> set subs))
              \<and> ptch = Polygon (exterior p)"
    by blast
  from bspec [OF this mem] shapes vals show ?thesis by simp
qed

subsection \<open>Background layers\<close>

text \<open>
  The function in one equation: the calls it adds to the axis are, in this order, the
  layer of each flag that is true.
\<close>

lemma add_map_features_eq:
  "add_map_features ax states_provinces country_borders land ocean lake =
     ((), ax\<lparr>ax_calls := ax_calls ax
        @ (if states_provinces then
             [Add_feature
                \<lparr>feature = \<lparr>ne_category = ''cultural'',
                             ne_name = ''admin_1_states_provinces_lines'',
                             ne_scale = ''50m'', ne_facecolor = ''none''\<rparr>,
                 kw_edgecolor = Some ''black'', kw_facecolor = None,
                 kw_alpha = Some (8 / 10), kw_zorder = 2, kw_linewidth = None\<rparr>]
           else [])
        @ (if country_borders then
             [Add_feature
                \<lparr>feature = \<lparr>ne_category = ''cultural'',
                             ne_name = ''admin_0_boundary_lines_land'',
                             ne_scale = ''50m'', ne_facecolor = ''none''\<rparr>,
                 kw_edgecolor = Some ''black'', kw_facecolor = None,
                 kw_alpha = None, kw_zorder = 2, kw_linewidth = Some 1\<rparr>]
           else [])
        @ (if land then
             [Add_feature
                \<lparr>feature = \<lparr>ne_category = ''physical'', ne_name = ''land'',
                             ne_scale = ''50m'', ne_facecolor = ''gray''\<rparr>,
                 kw_edgecolor = None, kw_facecolor = Some ''lightgray'',
                 kw_alpha = None, kw_zorder = 0, kw_linewidth = None\<rparr>]
           else [])
        @ (if ocean then
             [Add_feature
                \<lparr>feature = \<lparr>ne_category = ''physical'', ne_name = ''ocean'',
                             ne_scale = ''50m'', ne_facecolor = ''blue''\<rparr>,
                 kw_edgecolor = None, kw_facecolor = Some ''lightblue'',
                 kw_alpha = None, kw_zorder = 1, kw_linewidth = None\<rparr>]
           else [])
        @ (if lake then
             [Add_feature
                \<lparr>feature = \<lparr>ne_category = ''physical'',
                             ne_name = ''rivers_lake_centerlines'',
                             ne_scale = ''50m'', ne_facecolor = ''none''\<rparr>,
                 kw_edgecolor = None, kw_facecolor = Some ''lightblue'',
                 kw_alpha = None, kw_zorder = 2, kw_linewidth = None\<rparr>]
           else [])\<rparr>)"
  by (simp add: add_map_features_def ax_call_def Let_def)

text \<open>
  C8: there are five fixed layers, one for each flag, such that for every axis and every
  choice of the flags \<^verbatim>\<open>add_map_features\<close> adds to the axis the layer of each
  flag that is true and nothing else, whatever the other flags are; so it adds as many
  layers as there are true flags, and none when all flags are false. The land layer has
  z-order 0, the ocean layer 1 and the two border layers 2. The function returns
  \<^verbatim>\<open>None\<close>: its effect is on the axis only.
\<close>

theorem add_map_features_layers:
  "\<exists>l_states l_borders l_land l_ocean l_lake.
     ne_name (feature l_states) = ''admin_1_states_provinces_lines'' \<and> kw_zorder l_states = 2
   \<and> ne_name (feature l_borders) = ''admin_0_boundary_lines_land'' \<and> kw_zorder l_borders = 2
   \<and> ne_name (feature l_land) = ''land'' \<and> kw_zorder l_land = 0
   \<and> ne_name (feature l_ocean) = ''ocean'' \<and> kw_zorder l_ocean = 1
   \<and> ne_name (feature l_lake) = ''rivers_lake_centerlines''
   \<and> (\<forall>(ax :: 'v axes) states_provinces country_borders land ocean lake.
        add_map_features ax states_provinces country_borders land ocean lake =
          ((), ax\<lparr>ax_calls := ax_calls ax
                   @ (if states_provinces then [Add_feature l_states] else [])
                   @ (if country_borders then [Add_feature l_borders] else [])
                   @ (if land then [Add_feature l_land] else [])
                   @ (if ocean then [Add_feature l_ocean] else [])
                   @ (if lake then [Add_feature l_lake] else [])\<rparr>)
        \<and> length (ax_calls (snd (add_map_features ax states_provinces country_borders
                                     land ocean lake)))
            = length (ax_calls ax) + of_bool states_provinces + of_bool country_borders
                + of_bool land + of_bool ocean + of_bool lake
        \<and> add_map_features ax False False False False False = ((), ax))"
  apply (rule exI [where x = "\<lparr>feature = \<lparr>ne_category = ''cultural'',
                             ne_name = ''admin_1_states_provinces_lines'',
                             ne_scale = ''50m'', ne_facecolor = ''none''\<rparr>,
                 kw_edgecolor = Some ''black'', kw_facecolor = None,
                 kw_alpha = Some (8 / 10), kw_zorder = 2, kw_linewidth = None\<rparr>"])
  apply (rule exI [where x = "\<lparr>feature = \<lparr>ne_category = ''cultural'',
                             ne_name = ''admin_0_boundary_lines_land'',
                             ne_scale = ''50m'', ne_facecolor = ''none''\<rparr>,
                 kw_edgecolor = Some ''black'', kw_facecolor = None,
                 kw_alpha = None, kw_zorder = 2, kw_linewidth = Some 1\<rparr>"])
  apply (rule exI [where x = "\<lparr>feature = \<lparr>ne_category = ''physical'', ne_name = ''land'',
                             ne_scale = ''50m'', ne_facecolor = ''gray''\<rparr>,
                 kw_edgecolor = None, kw_facecolor = Some ''lightgray'',
                 kw_alpha = None, kw_zorder = 0, kw_linewidth = None\<rparr>"])
  apply (rule exI [where x = "\<lparr>feature = \<lparr>ne_category = ''physical'', ne_name = ''ocean'',
                             ne_scale = ''50m'', ne_facecolor = ''blue''\<rparr>,
                 kw_edgecolor = None, kw_facecolor = Some ''lightblue'',
                 kw_alpha = None, kw_zorder = 1, kw_linewidth = None\<rparr>"])
  apply (rule exI [where x = "\<lparr>feature = \<lparr>ne_category = ''physical'',
                             ne_name = ''rivers_lake_centerlines'',
                             ne_scale = ''50m'', ne_facecolor = ''none''\<rparr>,
                 kw_edgecolor = None, kw_facecolor = Some ''lightblue'',
                 kw_alpha = None, kw_zorder = 2, kw_linewidth = None\<rparr>"])
  apply (simp add: add_map_features_eq)
  done

subsection \<open>The spatial plot\<close>

text \<open>
  C9: \<^verbatim>\<open>spatial\<close> reprojects the geometry table to the parameters of the target
  projection, calls \<^verbatim>\<open>gen_patches\<close> on the array and the reprojected table,
  creates one new figure with one axis in the target projection, adds the collection to
  the axis, then the layers of \<^verbatim>\<open>add_map_features\<close> with its default flags (state
  and country borders, land and ocean; no lakes), then autoscales the view, and returns
  the figure and the axis. Without a projection argument the projection is Mercator.
\<close>

theorem spatial_sequence:
  "\<exists>l_states l_borders l_land l_ocean.
     ne_name (feature l_states) = ''admin_1_states_provinces_lines''
   \<and> ne_name (feature l_borders) = ''admin_0_boundary_lines_land''
   \<and> ne_name (feature l_land) = ''land''
   \<and> ne_name (feature l_ocean) = ''ocean''
   \<and> (\<forall>(to_crs :: geodf \<Rightarrow> 'p \<Rightarrow> geodf) proj4_params simplify plt
         (data_array :: 'v data_array) geodf simplify_level proj.
        spatial to_crs proj4_params simplify plt data_array geodf simplify_level proj =
          ((\<lparr>fig_number = Suc plt, fig_nrows = 1, fig_ncols = 1\<rparr>,
            \<lparr>ax_projection = Some proj,
             ax_calls =
               [Add_collection
                  (gen_patches simplify data_array (to_crs geodf (proj4_params proj))
                     simplify_level),
                Add_feature l_states, Add_feature l_borders, Add_feature l_land,
                Add_feature l_ocean, Autoscale_view]\<rparr>), Suc plt)
        \<and> ax_calls (snd (fst (spatial to_crs proj4_params simplify plt data_array geodf
                                 simplify_level proj)))
            = ax_calls (snd (add_map_features
                \<lparr>ax_projection = Some proj,
                 ax_calls =
                   [Add_collection
                      (gen_patches simplify data_array (to_crs geodf (proj4_params proj))
                         simplify_level)]\<rparr>
                True True True True False))
              @ [Autoscale_view]
        \<and> spatial_default to_crs proj4_params simplify plt data_array geodf
            = spatial to_crs proj4_params simplify plt data_array geodf 500 Mercator)"
  apply (rule exI [where x = "\<lparr>feature = \<lparr>ne_category = ''cultural'',
                             ne_name = ''admin_1_states_provinces_lines'',
                             ne_scale = ''50m'', ne_facecolor = ''none''\<rparr>,
                 kw_edgecolor = Some ''black'', kw_facecolor = None,
                 kw_alpha = Some (8 / 10), kw_zorder = 2, kw_linewidth = None\<rparr>"])
  apply (rule exI [where x = "\<lparr>feature = \<lparr>ne_category = ''cultural'',
                             ne_name = ''admin_0_boundary_lines_land'',
                             ne_scale = ''50m'', ne_facecolor = ''none''\<rparr>,
                 kw_edgecolor = Some ''black'', kw_facecolor = None,
                 kw_alpha = None, kw_zorder = 2, kw_linewidth = Some 1\<rparr>"])
  apply (rule exI [where x = "\<lparr>feature = \<lparr>ne_category = ''physical'', ne_name = ''land'',
                             ne_scale = ''50m'', ne_facecolor = ''gray''\<rparr>,
                 kw_edgecolor = None, kw_facecolor = Some ''lightgray'',
                 kw_alpha = None, kw_zorder = 0, kw_linewidth = None\<rparr>"])
  apply (rule exI [where x = "\<lparr>feature = \<lparr>ne_category = ''physical'', ne_name = ''ocean'',
                             ne_scale = ''50m'', ne_facecolor = ''blue''\<rparr>,
                 kw_edgecolor = None, kw_facecolor = Some ''lightblue'',
                 kw_alpha = None, kw_zorder = 1, kw_linewidth = None\<rparr>"])
  apply (simp add: spatial_def spatial_default_def add_map_features_default_def
                   add_map_features_eq subplots_def ax_call_def Let_def)
  done

subsection \<open>The Hovmuller plot\<close>

text \<open>
  C3: for every array, every \<^verbatim>\<open>xdim\<close>, \<^verbatim>\<open>ydim\<close> and \<^verbatim>\<open>how\<close>,
  \<^verbatim>\<open>hovmuller\<close> ends with the \<^verbatim>\<open>AttributeError\<close> of
  \<^verbatim>\<open>time_groups.keys()\<close> on line 78, where \<^verbatim>\<open>time_groups\<close> is a list. No
  call therefore reaches a validation error, the aggregation or the rendering.
\<close>

theorem hovmuller_always_attribute_error:
  "hovmuller groupby_apply plt data_array xdim ydim how cmap = Inl (AttributeError ''keys'')"
  by (simp add: hovmuller_def and_then_def Let_def)

text \<open>
  C4: a call whose \<^verbatim>\<open>xdim\<close> is neither a dimension of the array nor a calendar
  component should end with the error of line 85, \<^verbatim>\<open>x dimension not valid\<close>. At
  \<^verbatim>\<open>xdim="not_a_dim"\<close> the function ends with the \<^verbatim>\<open>AttributeError\<close> of
  line 78 instead.
\<close>

theorem hovmuller_invalid_dimension:
  "hovmuller groupby_apply plt \<lparr>dims = [''time'', ''hru''], values_of = [1, 2, 3, 4 :: real]\<rparr>
       ''not_a_dim'' ''time'' (Some ''mean'') ''viridis''
     = Inl (AttributeError ''keys'')
   \<and> hovmuller groupby_apply plt \<lparr>dims = [''time'', ''hru''], values_of = [1, 2, 3, 4 :: real]\<rparr>
       ''not_a_dim'' ''time'' (Some ''mean'') ''viridis''
     \<noteq> Inl (Exception ''x dimension not valid'')"
  by (simp add: hovmuller_def and_then_def Let_def)

text \<open>
  C5: a call with valid dimensions and \<^verbatim>\<open>how="bogus"\<close> should end with the error
  of line 104, \<^verbatim>\<open>Invalid time aggregation method given\<close>. The function ends with
  the \<^verbatim>\<open>AttributeError\<close> of line 78 instead.
\<close>

theorem hovmuller_invalid_aggregation:
  "hovmuller groupby_apply plt \<lparr>dims = [''time'', ''hru''], values_of = [1, 2, 3, 4 :: real]\<rparr>
       ''hru'' ''time'' (Some ''bogus'') ''viridis''
     = Inl (AttributeError ''keys'')
   \<and> hovmuller groupby_apply plt \<lparr>dims = [''time'', ''hru''], values_of = [1, 2, 3, 4 :: real]\<rparr>
       ''hru'' ''time'' (Some ''bogus'') ''viridis''
     \<noteq> Inl (Exception ''Invalid time aggregation method given'')"
  by (simp add: hovmuller_def and_then_def Let_def)

text \<open>
  C6: a call with \<^verbatim>\<open>xdim="month"\<close>, \<^verbatim>\<open>ydim="year"\<close> and \<^verbatim>\<open>how=None\<close>
  should end with the error of lines 82 and 83, \<^verbatim>\<open>Must specify aggregation method
  for x dimension\<close>. The function ends with the \<^verbatim>\<open>AttributeError\<close> of line 78
  instead.
\<close>

theorem hovmuller_missing_aggregation:
  "hovmuller groupby_apply plt \<lparr>dims = [''time'', ''hru''], values_of = [1, 2, 3, 4 :: real]\<rparr>
       ''month'' ''year'' None ''viridis''
     = Inl (AttributeError ''keys'')
   \<and> hovmuller groupby_apply plt \<lparr>dims = [''time'', ''hru''], values_of = [1, 2, 3, 4 :: real]\<rparr>
       ''month'' ''year'' None ''viridis''
     \<noteq> Inl (Exception ''Must specify aggregation method for x dimension'')"
  by (simp add: hovmuller_def and_then_def Let_def)

text \<open>
  C10: a call with two dimensions of the array and \<^verbatim>\<open>how="mean"\<close> should return a
  figure and an axis with the grid of group means, masked where not finite, and the axis
  limits of the group coordinates. The function returns nothing: it ends with the
  \<^verbatim>\<open>AttributeError\<close> of line 78.
\<close>

theorem hovmuller_mean_no_grid:
  "hovmuller_default groupby_apply plt
       \<lparr>dims = [''time'', ''hru''], values_of = [1, 2, 3, 4 :: real]\<rparr> ''hru'' ''time''
     = Inl (AttributeError ''keys'')
   \<and> (\<nexists>fig ax plt'. hovmuller groupby_apply plt
         \<lparr>dims = [''time'', ''hru''], values_of = [1, 2, 3, 4 :: real]\<rparr>
         ''hru'' ''time'' (Some ''mean'') ''viridis'' = Inr ((fig, ax), plt'))"
  by (simp add: hovmuller_default_def hovmuller_def and_then_def Let_def)

end
